theory Spec2Isabelle
  imports Complex_Main
begin

section \<open>JavaScript values, numbers and arrays\<close>

text \<open>
  FastMap is a TypeScript class over the JavaScript runtime: its dimensions and coordinates
  are \<^verbatim>\<open>number\<close>s, its storage is a JavaScript \<^verbatim>\<open>Array\<close>, and the type parameter
  \<^verbatim>\<open>T\<close> is erased at run time. The finite numbers are modelled as rationals with exact
  arithmetic. Every finite double is a rational, comparisons of doubles are exact, and a sum
  or product of doubles is the exact one whenever a double can hold it, as it can for the
  integers below \<open>2^53\<close>. Where the exact result is not a double the source rounds and the
  model does not, so the statements that depend on the value of a product or a sum are made
  for arguments on which the arithmetic is exact. \<^verbatim>\<open>NaN\<close> and the infinities are not
  modelled.
\<close>

type_synonym number = rat

definition isInteger :: "number \<Rightarrow> bool" where
  \<comment> \<open>\<^verbatim>\<open>Number.isInteger\<close>\<close>
  "isInteger x \<longleftrightarrow> of_int \<lfloor>x\<rfloor> = x"

datatype jsvalue =
    JUndefined
  | JNull
  | JBool bool
  | JNumber number
  | JString string
  | JObject nat

fun ToBoolean :: "jsvalue \<Rightarrow> bool" where
  "ToBoolean JUndefined = False"
| "ToBoolean JNull = False"
| "ToBoolean (JBool b) = b"
| "ToBoolean (JNumber n) = (n \<noteq> 0)"
| "ToBoolean (JString s) = (s \<noteq> [])"
| "ToBoolean (JObject r) = True"

definition js_or :: "jsvalue \<Rightarrow> jsvalue \<Rightarrow> jsvalue" where
  \<comment> \<open>\<^verbatim>\<open>a || b\<close>\<close>
  "js_or a b = (if ToBoolean a then a else b)"

datatype error = Error string | RangeError string

text \<open>
  An array is an object with a \<^verbatim>\<open>length\<close> and own properties. A property key is the
  canonical string of the number used to index; distinct finite numbers have distinct
  strings, so the properties are keyed by the number. A key is an array index when it is
  an integer in \<open>[0, 2^32 - 2]\<close>; writing an array index at or beyond \<^verbatim>\<open>length\<close> grows
  the array, any other key is an ordinary property. Reading a missing key gives
  \<^verbatim>\<open>undefined\<close>.
\<close>

record jsarray =
  arr_length :: nat
  arr_props :: "number \<rightharpoonup> jsvalue"

definition isArrayIndex :: "number \<Rightarrow> bool" where
  "isArrayIndex i \<longleftrightarrow> isInteger i \<and> 0 \<le> i \<and> i < 2 ^ 32 - 1"

definition Array_new :: "number \<Rightarrow> error + jsarray" where
  \<comment> \<open>\<^verbatim>\<open>new Array(n)\<close>: a RangeError unless \<open>n\<close> is an integer in \<open>[0, 2^32 - 1]\<close>\<close>
  "Array_new n =
     (if isInteger n \<and> 0 \<le> n \<and> n \<le> 2 ^ 32 - 1
      then Inr \<lparr>arr_length = nat \<lfloor>n\<rfloor>, arr_props = Map.empty\<rparr>
      else Inl (RangeError ''Invalid array length''))"

definition Array_fill :: "jsarray \<Rightarrow> jsvalue \<Rightarrow> jsarray" where
  \<comment> \<open>\<^verbatim>\<open>a.fill(v)\<close>: every index below \<^verbatim>\<open>length\<close> is set to \<open>v\<close>\<close>
  "Array_fill a v =
     a\<lparr>arr_props := (\<lambda>k. if isInteger k \<and> 0 \<le> k \<and> k < of_nat (arr_length a)
                           then Some v else arr_props a k)\<rparr>"

definition Array_get :: "jsarray \<Rightarrow> number \<Rightarrow> jsvalue" where
  \<comment> \<open>\<^verbatim>\<open>a[i]\<close>\<close>
  "Array_get a i = (case arr_props a i of None \<Rightarrow> JUndefined | Some v \<Rightarrow> v)"

definition Array_put :: "jsarray \<Rightarrow> number \<Rightarrow> jsvalue \<Rightarrow> jsarray" where
  \<comment> \<open>\<^verbatim>\<open>a[i] = v\<close>\<close>
  "Array_put a i v =
     (if isArrayIndex i \<and> of_nat (arr_length a) \<le> i
      then a\<lparr>arr_props := (arr_props a)(i \<mapsto> v), arr_length := nat \<lfloor>i\<rfloor> + 1\<rparr>
      else a\<lparr>arr_props := (arr_props a)(i \<mapsto> v)\<rparr>)"

section \<open>The class FastMap\<close>

text \<open>
  The fields of the class. A method that can throw or mutate \<^verbatim>\<open>this\<close> returns its outcome
  (\<open>Inl\<close> the thrown error) paired with the object after the call; a constructor that
  throws returns no object.
\<close>

record FastMap =
  map_arr :: jsarray
  width :: number
  height :: number

record FastMap_memo = FastMap +
  memoCache :: "(number \<times> number) \<rightharpoonup> jsvalue"

subsection \<open>src/index.ts\<close>

definition new_FastMap :: "number \<Rightarrow> number \<Rightarrow> error + FastMap" where
  \<comment> \<open>\<open>w * h\<close> is the exact product: the source's, unless the double product is rounded\<close>
  "new_FastMap w h =
     (case Array_new (w * h) of
        Inl e \<Rightarrow> Inl e
      | Inr a \<Rightarrow> Inr \<lparr>map_arr = Array_fill a JNull, width = w, height = h\<rparr>)"

definition Convert2DTo1D :: "FastMap \<Rightarrow> number \<Rightarrow> number \<Rightarrow> number" where
  \<comment> \<open>the exact value: the source's, unless the double product or sum is rounded\<close>
  "Convert2DTo1D m x y = y * width m + x"

definition CheckIndicesAreValid :: "FastMap \<Rightarrow> number \<Rightarrow> number \<Rightarrow> bool" where
  "CheckIndicesAreValid m x y \<longleftrightarrow> x \<ge> 0 \<and> x < width m \<and> y \<ge> 0 \<and> y < height m"

definition Get :: "FastMap \<Rightarrow> number \<Rightarrow> number \<Rightarrow> (error + jsvalue) \<times> FastMap" where
  "Get m x y =
     (if \<not> CheckIndicesAreValid m x y then (Inl (Error ''Index out of bounds''), m)
      else (Inr (Array_get (map_arr m) (Convert2DTo1D m x y)), m))"

definition Set :: "FastMap \<Rightarrow> number \<Rightarrow> number \<Rightarrow> jsvalue \<Rightarrow> (error + unit) \<times> FastMap" where
  "Set m x y v =
     (if \<not> CheckIndicesAreValid m x y then (Inl (Error ''Index out of bounds''), m)
      else (Inr (), m\<lparr>map_arr := Array_put (map_arr m) (Convert2DTo1D m x y) v\<rparr>))"

definition Width :: "'a FastMap_scheme \<Rightarrow> number" where
  "Width m = width m"

definition Height :: "'a FastMap_scheme \<Rightarrow> number" where
  "Height m = height m"

subsection \<open>The variants with validation\<close>

text \<open>
  The later versions of the class validate the dimensions in the constructor and require
  integer coordinates. \<^verbatim>\<open>checkIndicesAreValid\<close> and \<^verbatim>\<open>convert2DTo1D\<close> are the same
  in all of them, and so are \<^verbatim>\<open>Width\<close> and \<^verbatim>\<open>Height\<close>. \<^verbatim>\<open>validateSize\<close> is
  the same in the class with \<^verbatim>\<open>memoCache\<close> and the class with \<^verbatim>\<open>GetUnsafe\<close>; the
  first validating version makes the same three tests and spells its first message
  differently.
\<close>

definition validateSize_v1 :: "number \<Rightarrow> number \<Rightarrow> error + unit" where
  \<comment> \<open>\<^verbatim>\<open>validateSize\<close> of the first validating version\<close>
  "validateSize_v1 w h =
     (if \<not> isInteger w \<or> \<not> isInteger h then Inl (Error ''Width and Geight must be Integer values'')
      else if w \<le> 0 \<or> h \<le> 0 then Inl (Error ''Width and height must be greater than 0'')
      else if w * h > 2 ^ 32 - 1 then Inl (Error ''Specified dimensions are too large'')
      else Inr ())"

definition validateSize :: "number \<Rightarrow> number \<Rightarrow> error + unit" where
  "validateSize w h =
     (if \<not> isInteger w \<or> \<not> isInteger h then Inl (Error ''Width and Height must be Integer values'')
      else if w \<le> 0 \<or> h \<le> 0 then Inl (Error ''Width and height must be greater than 0'')
      else if w * h > 2 ^ 32 - 1 then Inl (Error ''Specified dimensions are too large'')
      else Inr ())"

definition convert2DTo1D :: "'a FastMap_scheme \<Rightarrow> number \<Rightarrow> number \<Rightarrow> number" where
  "convert2DTo1D m x y = y * width m + x"

definition checkIndicesAreValid :: "'a FastMap_scheme \<Rightarrow> number \<Rightarrow> number \<Rightarrow> bool" where
  "checkIndicesAreValid m x y \<longleftrightarrow>
     isInteger x \<and> isInteger y \<and> x \<ge> 0 \<and> x < width m \<and> y \<ge> 0 \<and> y < height m"

text \<open>
  The first validating version: the class of \<^verbatim>\<open>src/index.ts\<close> with \<^verbatim>\<open>validateSize\<close>
  called first in the constructor and \<^verbatim>\<open>Number.isInteger\<close> in the bounds check.
\<close>

definition new_FastMap_v1 :: "number \<Rightarrow> number \<Rightarrow> error + FastMap" where
  "new_FastMap_v1 w h =
     (case validateSize_v1 w h of
        Inl e \<Rightarrow> Inl e
      | Inr u \<Rightarrow>
          (case Array_new (w * h) of
             Inl e \<Rightarrow> Inl e
           | Inr a \<Rightarrow> Inr \<lparr>map_arr = Array_fill a JNull, width = w, height = h\<rparr>))"

text \<open>
  The class with \<^verbatim>\<open>GetUnsafe\<close> and \<^verbatim>\<open>SetUnsafe\<close>: its slots hold \<^verbatim>\<open>T | undefined\<close>
  and the array is not filled. Its checked \<^verbatim>\<open>Get\<close> and \<^verbatim>\<open>Set\<close> are word for word those
  of the first validating version of the class.
\<close>

definition new_FastMap_unsafe :: "number \<Rightarrow> number \<Rightarrow> error + FastMap" where
  "new_FastMap_unsafe w h =
     (case validateSize w h of
        Inl e \<Rightarrow> Inl e
      | Inr u \<Rightarrow>
          (case Array_new (w * h) of
             Inl e \<Rightarrow> Inl e
           | Inr a \<Rightarrow> Inr \<lparr>map_arr = a, width = w, height = h\<rparr>))"

definition Get_checked :: "FastMap \<Rightarrow> number \<Rightarrow> number \<Rightarrow> (error + jsvalue) \<times> FastMap" where
  "Get_checked m x y =
     (if \<not> checkIndicesAreValid m x y then (Inl (Error ''Index out of bounds''), m)
      else (Inr (Array_get (map_arr m) (convert2DTo1D m x y)), m))"

definition Set_checked :: "FastMap \<Rightarrow> number \<Rightarrow> number \<Rightarrow> jsvalue \<Rightarrow> (error + unit) \<times> FastMap" where
  "Set_checked m x y v =
     (if \<not> checkIndicesAreValid m x y then (Inl (Error ''Index out of bounds''), m)
      else (Inr (), m\<lparr>map_arr := Array_put (map_arr m) (convert2DTo1D m x y) v\<rparr>))"

definition GetUnsafe :: "FastMap \<Rightarrow> number \<Rightarrow> number \<Rightarrow> jsvalue \<times> FastMap" where
  "GetUnsafe m x y = (Array_get (map_arr m) (y * width m + x), m)"

definition SetUnsafe :: "FastMap \<Rightarrow> number \<Rightarrow> number \<Rightarrow> jsvalue \<Rightarrow> unit \<times> FastMap" where
  "SetUnsafe m x y v = ((), m\<lparr>map_arr := Array_put (map_arr m) (y * width m + x) v\<rparr>)"

text \<open>
  The class with \<^verbatim>\<open>memoCache\<close>. The cache key is the string \<^verbatim>\<open>`${x},${y}`\<close>, which
  determines the pair of numbers, so the cache is keyed by the pair.
\<close>

definition new_FastMap_memo :: "number \<Rightarrow> number \<Rightarrow> error + FastMap_memo" where
  "new_FastMap_memo w h =
     (case validateSize w h of
        Inl e \<Rightarrow> Inl e
      | Inr u \<Rightarrow>
          (case Array_new (w * h) of
             Inl e \<Rightarrow> Inl e
           | Inr a \<Rightarrow>
               Inr \<lparr>map_arr = Array_fill a JNull, width = w, height = h, memoCache = Map.empty\<rparr>))"

definition Get_memo ::
  "FastMap_memo \<Rightarrow> number \<Rightarrow> number \<Rightarrow> (error + jsvalue) \<times> FastMap_memo" where
  "Get_memo m x y =
     (case memoCache m (x, y) of
        Some c \<Rightarrow> (Inr (js_or c JNull), m)
      | None \<Rightarrow>
          if \<not> checkIndicesAreValid m x y then (Inl (Error ''Index out of bounds''), m)
          else (let v = Array_get (map_arr m) (convert2DTo1D m x y)
                in (Inr v, m\<lparr>memoCache := (memoCache m)((x, y) \<mapsto> v)\<rparr>)))"

definition Set_memo ::
  "FastMap_memo \<Rightarrow> number \<Rightarrow> number \<Rightarrow> jsvalue \<Rightarrow> (error + unit) \<times> FastMap_memo" where
  "Set_memo m x y v =
     (if \<not> checkIndicesAreValid m x y then (Inl (Error ''Index out of bounds''), m)
      else (Inr (), m\<lparr>map_arr := Array_put (map_arr m) (convert2DTo1D m x y) v,
                      memoCache := (memoCache m)((x, y) := None)\<rparr>))"

section \<open>Facts about integers, indices and the array model\<close>

lemmas ops = Get_def Set_def Get_checked_def Set_checked_def CheckIndicesAreValid_def
  checkIndicesAreValid_def Convert2DTo1D_def convert2DTo1D_def GetUnsafe_def SetUnsafe_def
  Get_memo_def Set_memo_def

lemmas ctors = new_FastMap_def new_FastMap_v1_def new_FastMap_unsafe_def new_FastMap_memo_def
  validateSize_def validateSize_v1_def Array_new_def

lemma isInteger_iff: "isInteger x \<longleftrightarrow> (\<exists>k::int. x = of_int k)"
  unfolding isInteger_def by (metis of_int_floor_cancel Ints_of_int Ints_cases)

lemma isInteger_of_int [simp]: "isInteger (of_int k)"
  by (auto simp: isInteger_iff)

lemma isInteger_numeral [simp]:
  "isInteger (numeral n)" "isInteger (- numeral n)" "isInteger 0" "isInteger 1" "isInteger (- 1)"
  by (simp_all add: isInteger_def)

lemma fractions_not_integer [simp]:
  "\<not> isInteger (1 / 2)" "\<not> isInteger (3 / 2)" "\<not> isInteger (5 / 2)" "\<not> isInteger (7 / 2)"
  "\<not> isInteger (25 / 2)"
  by code_simp+

lemma isInteger_add: "isInteger a \<Longrightarrow> isInteger b \<Longrightarrow> isInteger (a + b)"
  by (metis isInteger_iff of_int_add)

lemma isInteger_mult: "isInteger a \<Longrightarrow> isInteger b \<Longrightarrow> isInteger (a * b)"
  by (metis isInteger_iff of_int_mult)

text \<open>The last slot of the last row is the last index: an in-range pair maps below \<open>w * h\<close>.\<close>

lemma index_lt:
  assumes "isInteger y" "isInteger h" "y < h" "0 \<le> x" "x < w"
  shows "y * w + x < w * h"
proof -
  obtain a b :: int where ab: "y = of_int a" "h = of_int b"
    using assms by (auto simp: isInteger_iff)
  with assms have "a + 1 \<le> b" by simp
  then have "y + 1 \<le> h" unfolding ab by (metis of_int_le_iff of_int_add of_int_1)
  moreover have "0 < w" using assms by simp
  ultimately have "(y + 1) * w \<le> h * w" by (simp add: mult_right_mono)
  then show ?thesis using assms by (simp add: algebra_simps)
qed

text \<open>Two pairs with integer rows and columns inside a row of length \<open>w\<close> share no index.\<close>

lemma index_inj:
  assumes "isInteger y1" "isInteger y2" "0 \<le> x1" "x1 < w" "0 \<le> x2" "x2 < w"
    and eq: "y1 * w + x1 = y2 * w + (x2::rat)"
  shows "x1 = x2 \<and> y1 = y2"
proof -
  obtain a b :: int where ab: "y1 = of_int a" "y2 = of_int b"
    using assms by (auto simp: isInteger_iff)
  have w: "0 < w" using assms by simp
  have "a = b"
  proof (rule ccontr)
    assume "a \<noteq> b"
    then consider "a + 1 \<le> b" | "b + 1 \<le> a" by linarith
    then show False
    proof cases
      case 1
      then have "y1 + 1 \<le> y2" unfolding ab by (metis of_int_le_iff of_int_add of_int_1)
      then have "(y1 + 1) * w \<le> y2 * w" using w by (simp add: mult_right_mono)
      then show False using assms by (simp add: algebra_simps)
    next
      case 2
      then have "y2 + 1 \<le> y1" unfolding ab by (metis of_int_le_iff of_int_add of_int_1)
      then have "(y2 + 1) * w \<le> y1 * w" using w by (simp add: mult_right_mono)
      then show False using assms by (simp add: algebra_simps)
    qed
  qed
  then show ?thesis using eq ab by simp
qed

text \<open>Every integer below \<open>w * h\<close> is the index of a pair: column \<open>i mod w\<close>, row \<open>i div w\<close>.\<close>

lemma index_surj:
  assumes "isInteger w" "0 < w" "0 < h" "isInteger i" "0 \<le> i" "i < w * h"
  shows "\<exists>x y. isInteger x \<and> isInteger y \<and> 0 \<le> x \<and> x < w \<and> 0 \<le> y \<and> y < h \<and> y * w + x = i"
proof -
  obtain a k :: int where d: "w = of_int a" "i = of_int k"
    using assms by (auto simp: isInteger_iff)
  have a: "0 < a" "0 \<le> k" using assms unfolding d by simp_all
  let ?x = "rat_of_int (k mod a)" and ?y = "rat_of_int (k div a)"
  have x: "0 \<le> ?x" "?x < w" using a unfolding d by simp_all
  have y0: "0 \<le> ?y" using a by (simp add: pos_imp_zdiv_nonneg_iff)
  have "rat_of_int (k div a) * rat_of_int a + rat_of_int (k mod a) = rat_of_int k"
    by (metis of_int_add of_int_mult div_mult_mod_eq)
  then have eq: "?y * w + ?x = i" unfolding d .
  have "?y * w \<le> i" using eq x by linarith
  also have "i < h * w" using assms by (simp add: mult.commute)
  finally have "?y * w < h * w" .
  then have y1: "?y < h" using \<open>0 < w\<close> by (simp only: mult_less_cancel_right_pos)
  show ?thesis using x y0 y1 eq by (intro exI [of _ ?x] exI [of _ ?y]) simp
qed

lemma index_bij:
  assumes "isInteger w" "isInteger h" "0 < w" "0 < h"
  shows "bij_betw (\<lambda>(x, y). y * w + x)
     {(x, y). isInteger x \<and> isInteger y \<and> 0 \<le> x \<and> x < w \<and> 0 \<le> y \<and> y < h}
     {i. isInteger i \<and> 0 \<le> i \<and> i < w * h}"
  unfolding bij_betw_def
proof (intro conjI)
  show "inj_on (\<lambda>(x, y). y * w + x)
     {(x, y). isInteger x \<and> isInteger y \<and> 0 \<le> x \<and> x < w \<and> 0 \<le> y \<and> y < h}"
    by (rule inj_onI) (auto dest: index_inj)
  show "(\<lambda>(x, y). y * w + x) `
     {(x, y). isInteger x \<and> isInteger y \<and> 0 \<le> x \<and> x < w \<and> 0 \<le> y \<and> y < h} =
     {i. isInteger i \<and> 0 \<le> i \<and> i < w * h}"
  proof (intro equalityI subsetI)
    fix i
    assume "i \<in> (\<lambda>(x, y). y * w + x) `
      {(x, y). isInteger x \<and> isInteger y \<and> 0 \<le> x \<and> x < w \<and> 0 \<le> y \<and> y < h}"
    then obtain x y where xy: "i = y * w + x" "isInteger x" "isInteger y" "0 \<le> x" "x < w"
      "0 \<le> y" "y < h" by auto
    have "0 \<le> y * w" using xy assms by simp
    then have "0 \<le> i" using xy by simp
    moreover have "isInteger i" using xy assms by (simp add: isInteger_add isInteger_mult)
    moreover have "i < w * h" using xy assms by (simp add: index_lt)
    ultimately show "i \<in> {i. isInteger i \<and> 0 \<le> i \<and> i < w * h}" by simp
  next
    fix i
    assume "i \<in> {i. isInteger i \<and> 0 \<le> i \<and> i < w * h}"
    then have "\<exists>x y. isInteger x \<and> isInteger y \<and> 0 \<le> x \<and> x < w \<and> 0 \<le> y \<and> y < h \<and> y * w + x = i"
      using assms by (intro index_surj) simp_all
    then show "i \<in> (\<lambda>(x, y). y * w + x) `
      {(x, y). isInteger x \<and> isInteger y \<and> 0 \<le> x \<and> x < w \<and> 0 \<le> y \<and> y < h}"
      by force
  qed
qed

lemma Array_get_put_same: "Array_get (Array_put a i v) i = v"
  by (simp add: Array_get_def Array_put_def)

lemma Array_get_put_other: "i \<noteq> j \<Longrightarrow> Array_get (Array_put a i v) j = Array_get a j"
  by (simp add: Array_get_def Array_put_def)

text \<open>A write at the index of an in-range pair with an integer row does not grow the array.\<close>

lemma put_keeps_length:
  assumes "isInteger y" "isInteger (height m)" "y < height m" "0 \<le> x" "x < width m"
    and "rat_of_nat (arr_length (map_arr m)) = width m * height m"
  shows "arr_length (Array_put (map_arr m) (y * width m + x) v) = arr_length (map_arr m)"
proof -
  have "y * width m + x < width m * height m" using assms by (simp add: index_lt)
  then show ?thesis using assms by (simp add: Array_put_def)
qed

text \<open>What the three constructors return on positive integer dimensions within the limit.\<close>

lemma new_FastMap_ok:
  assumes "isInteger w" "isInteger h" "0 < w" "0 < h" "w * h \<le> 2 ^ 32 - 1"
  shows "new_FastMap w h =
    Inr \<lparr>map_arr = Array_fill \<lparr>arr_length = nat \<lfloor>w * h\<rfloor>, arr_props = Map.empty\<rparr> JNull,
         width = w, height = h\<rparr>"
  using assms by (simp add: ctors isInteger_mult)

lemma new_FastMap_unsafe_ok:
  assumes "isInteger w" "isInteger h" "0 < w" "0 < h" "w * h \<le> 2 ^ 32 - 1"
  shows "new_FastMap_unsafe w h =
    Inr \<lparr>map_arr = \<lparr>arr_length = nat \<lfloor>w * h\<rfloor>, arr_props = Map.empty\<rparr>, width = w, height = h\<rparr>"
  using assms by (simp add: ctors isInteger_mult not_le [symmetric])

lemma new_FastMap_memo_ok:
  assumes "isInteger w" "isInteger h" "0 < w" "0 < h" "w * h \<le> 2 ^ 32 - 1"
  shows "new_FastMap_memo w h =
    Inr \<lparr>map_arr = Array_fill \<lparr>arr_length = nat \<lfloor>w * h\<rfloor>, arr_props = Map.empty\<rparr> JNull,
         width = w, height = h, memoCache = Map.empty\<rparr>"
  using assms by (simp add: ctors isInteger_mult not_le [symmetric])

lemma new_FastMap_v1_ok:
  assumes "isInteger w" "isInteger h" "0 < w" "0 < h" "w * h \<le> 2 ^ 32 - 1"
  shows "new_FastMap_v1 w h =
    Inr \<lparr>map_arr = Array_fill \<lparr>arr_length = nat \<lfloor>w * h\<rfloor>, arr_props = Map.empty\<rparr> JNull,
         width = w, height = h\<rparr>"
  using assms by (simp add: ctors isInteger_mult not_le [symmetric])

lemma fresh_slot:
  assumes "isInteger w" "isInteger h" "0 < w" "0 < h"
    and "isInteger x" "isInteger y" "0 \<le> x" "x < w" "0 \<le> y" "y < h"
  shows "Array_get (Array_fill \<lparr>arr_length = nat \<lfloor>w * h\<rfloor>, arr_props = Map.empty\<rparr> JNull)
           (y * w + x) = JNull"
proof -
  have i: "isInteger (y * w + x)" using assms by (simp add: isInteger_add isInteger_mult)
  have "0 \<le> y * w" using assms by simp
  then have nn: "0 \<le> y * w + x" using assms by simp
  have lt: "y * w + x < w * h" using assms by (simp add: index_lt)
  have "isInteger (w * h)" using assms by (simp add: isInteger_mult)
  then have f: "rat_of_int \<lfloor>w * h\<rfloor> = w * h" by (simp add: isInteger_def)
  have "0 \<le> w * h" using assms by simp
  then have "rat_of_nat (nat \<lfloor>w * h\<rfloor>) = w * h" using f by simp
  then show ?thesis using i nn lt by (simp add: Array_get_def Array_fill_def f)
qed

section \<open>Construction\<close>

text \<open>
  Claim C1, as it holds on the code. The constructors that call \<^verbatim>\<open>validateSize\<close> (the
  first validating version, the class with \<^verbatim>\<open>memoCache\<close> and the class with
  \<^verbatim>\<open>GetUnsafe\<close>) throw an \<^verbatim>\<open>Error\<close> for a non-integer dimension, for a non-positive
  dimension and for a product above \<open>2^32 - 1\<close>, each with its own message and in this
  order; the first validating version spells the first message "Width and Geight must be
  Integer values". The error is the one of \<^verbatim>\<open>validateSize\<close>, which runs before the array
  is allocated, and no object is returned.
\<close>

theorem validating_constructors_reject:
  "(\<not> isInteger w \<or> \<not> isInteger h \<longrightarrow>
      new_FastMap_v1 w h = Inl (Error ''Width and Geight must be Integer values'') \<and>
      new_FastMap_memo w h = Inl (Error ''Width and Height must be Integer values'') \<and>
      new_FastMap_unsafe w h = Inl (Error ''Width and Height must be Integer values'')) \<and>
   (isInteger w \<and> isInteger h \<and> (w \<le> 0 \<or> h \<le> 0) \<longrightarrow>
      new_FastMap_v1 w h = Inl (Error ''Width and height must be greater than 0'') \<and>
      new_FastMap_memo w h = Inl (Error ''Width and height must be greater than 0'') \<and>
      new_FastMap_unsafe w h = Inl (Error ''Width and height must be greater than 0'')) \<and>
   (isInteger w \<and> isInteger h \<and> 0 < w \<and> 0 < h \<and> w * h > 2 ^ 32 - 1 \<longrightarrow>
      new_FastMap_v1 w h = Inl (Error ''Specified dimensions are too large'') \<and>
      new_FastMap_memo w h = Inl (Error ''Specified dimensions are too large'') \<and>
      new_FastMap_unsafe w h = Inl (Error ''Specified dimensions are too large''))"
  by (auto simp add: ctors)

theorem validating_constructors_reject_witness:
  "new_FastMap_unsafe (5 / 2) 5 = Inl (Error ''Width and Height must be Integer values'') \<and>
   new_FastMap_unsafe 0 5 = Inl (Error ''Width and height must be greater than 0'') \<and>
   new_FastMap_unsafe (- 1) 5 = Inl (Error ''Width and height must be greater than 0'') \<and>
   new_FastMap_unsafe 65536 65536 = Inl (Error ''Specified dimensions are too large'') \<and>
   new_FastMap_memo (5 / 2) 5 = Inl (Error ''Width and Height must be Integer values'') \<and>
   new_FastMap_memo 0 5 = Inl (Error ''Width and height must be greater than 0'') \<and>
   new_FastMap_memo 65536 65536 = Inl (Error ''Specified dimensions are too large'') \<and>
   new_FastMap_v1 (5 / 2) 5 = Inl (Error ''Width and Geight must be Integer values'') \<and>
   new_FastMap_v1 0 5 = Inl (Error ''Width and height must be greater than 0'') \<and>
   new_FastMap_v1 (- 1) 5 = Inl (Error ''Width and height must be greater than 0'') \<and>
   new_FastMap_v1 65536 65536 = Inl (Error ''Specified dimensions are too large'')"
  using validating_constructors_reject [of "5 / 2" 5] validating_constructors_reject [of 0 5]
    validating_constructors_reject [of "- 1" 5] validating_constructors_reject [of 65536 65536]
  by simp

text \<open>
  Claim C1 as stated fails on the constructor of \<^verbatim>\<open>src/index.ts\<close>, which does not
  validate: \<^verbatim>\<open>new FastMap(0, 5)\<close> returns a map of width 0 over an empty array.
\<close>

theorem index_ts_accepts_zero_width:
  "\<not> isl (new_FastMap 0 5) \<and> Width (projr (new_FastMap 0 5)) = 0 \<and>
   Height (projr (new_FastMap 0 5)) = 5 \<and>
   arr_length (map_arr (projr (new_FastMap 0 5))) = 0"
  by (simp add: ctors Width_def Height_def Array_fill_def)




text \<open>
  Claim C5. For positive integer dimensions whose product is at most \<open>2^32 - 1\<close> the
  constructor of \<^verbatim>\<open>src/index.ts\<close> returns a map, \<^verbatim>\<open>Width()\<close> and \<^verbatim>\<open>Height()\<close>
  are the arguments, and \<^verbatim>\<open>Get\<close> returns \<^verbatim>\<open>null\<close>, the absent marker of that class, at
  every in-range integer coordinate. The same holds for the class with \<^verbatim>\<open>memoCache\<close>,
  and for the class with \<^verbatim>\<open>GetUnsafe\<close> with its absent marker \<^verbatim>\<open>undefined\<close>.
\<close>

theorem fresh_grid_is_absent:
  assumes "isInteger w" "isInteger h" "0 < w" "0 < h" "w * h \<le> 2 ^ 32 - 1"
  shows "\<not> isl (new_FastMap w h) \<and> Width (projr (new_FastMap w h)) = w \<and>
     Height (projr (new_FastMap w h)) = h \<and>
     (\<forall>x y. isInteger x \<and> isInteger y \<and> 0 \<le> x \<and> x < w \<and> 0 \<le> y \<and> y < h \<longrightarrow>
        fst (Get (projr (new_FastMap w h)) x y) = Inr JNull) \<and>
     \<not> isl (new_FastMap_memo w h) \<and> Width (projr (new_FastMap_memo w h)) = w \<and>
     Height (projr (new_FastMap_memo w h)) = h \<and>
     (\<forall>x y. isInteger x \<and> isInteger y \<and> 0 \<le> x \<and> x < w \<and> 0 \<le> y \<and> y < h \<longrightarrow>
        fst (Get_memo (projr (new_FastMap_memo w h)) x y) = Inr JNull) \<and>
     \<not> isl (new_FastMap_unsafe w h) \<and> Width (projr (new_FastMap_unsafe w h)) = w \<and>
     Height (projr (new_FastMap_unsafe w h)) = h \<and>
     (\<forall>x y. isInteger x \<and> isInteger y \<and> 0 \<le> x \<and> x < w \<and> 0 \<le> y \<and> y < h \<longrightarrow>
        fst (Get_checked (projr (new_FastMap_unsafe w h)) x y) = Inr JUndefined \<and>
        fst (GetUnsafe (projr (new_FastMap_unsafe w h)) x y) = JUndefined)"
proof -
  have a: "\<not> isl (new_FastMap w h) \<and> Width (projr (new_FastMap w h)) = w \<and>
     Height (projr (new_FastMap w h)) = h \<and>
     (\<forall>x y. isInteger x \<and> isInteger y \<and> 0 \<le> x \<and> x < w \<and> 0 \<le> y \<and> y < h \<longrightarrow>
        fst (Get (projr (new_FastMap w h)) x y) = Inr JNull)"
    using assms by (simp add: new_FastMap_ok Width_def Height_def ops fresh_slot)
  have b: "\<not> isl (new_FastMap_memo w h) \<and> Width (projr (new_FastMap_memo w h)) = w \<and>
     Height (projr (new_FastMap_memo w h)) = h \<and>
     (\<forall>x y. isInteger x \<and> isInteger y \<and> 0 \<le> x \<and> x < w \<and> 0 \<le> y \<and> y < h \<longrightarrow>
        fst (Get_memo (projr (new_FastMap_memo w h)) x y) = Inr JNull)"
    using assms by (simp add: new_FastMap_memo_ok Width_def Height_def ops fresh_slot)
  have c: "\<not> isl (new_FastMap_unsafe w h) \<and> Width (projr (new_FastMap_unsafe w h)) = w \<and>
     Height (projr (new_FastMap_unsafe w h)) = h \<and>
     (\<forall>x y. isInteger x \<and> isInteger y \<and> 0 \<le> x \<and> x < w \<and> 0 \<le> y \<and> y < h \<longrightarrow>
        fst (Get_checked (projr (new_FastMap_unsafe w h)) x y) = Inr JUndefined \<and>
        fst (GetUnsafe (projr (new_FastMap_unsafe w h)) x y) = JUndefined)"
    using assms by (simp add: new_FastMap_unsafe_ok Width_def Height_def ops Array_get_def)
  show ?thesis using a b c by blast
qed

theorem fresh_grid_is_absent_witness:
  "\<not> isl (new_FastMap 2 2) \<and> Width (projr (new_FastMap 2 2)) = 2 \<and>
   Height (projr (new_FastMap 2 2)) = 2 \<and>
   fst (Get (projr (new_FastMap 2 2)) 1 1) = Inr JNull \<and>
   fst (Get_memo (projr (new_FastMap_memo 2 2)) 1 1) = Inr JNull \<and>
   fst (Get_checked (projr (new_FastMap_unsafe 2 2)) 1 1) = Inr JUndefined"
  using fresh_grid_is_absent [of 2 2] by simp

text \<open>The first validating version fills the array with \<^verbatim>\<open>null\<close> as \<^verbatim>\<open>src/index.ts\<close> does.\<close>

lemma v1_fresh_grid:
  assumes "isInteger w" "isInteger h" "0 < w" "0 < h" "w * h \<le> 2 ^ 32 - 1"
  shows "\<not> isl (new_FastMap_v1 w h) \<and> Width (projr (new_FastMap_v1 w h)) = w \<and>
     Height (projr (new_FastMap_v1 w h)) = h \<and>
     (\<forall>x y. isInteger x \<and> isInteger y \<and> 0 \<le> x \<and> x < w \<and> 0 \<le> y \<and> y < h \<longrightarrow>
        fst (Get_checked (projr (new_FastMap_v1 w h)) x y) = Inr JNull)"
  using assms by (simp add: new_FastMap_v1_ok Width_def Height_def ops fresh_slot)

section \<open>Reading and writing\<close>

text \<open>
  Claim C3, the round-trip law. In \<^verbatim>\<open>src/index.ts\<close>, and with the checked accessors of the
  validating versions, \<^verbatim>\<open>Set(x, y, v)\<close> at an in-range integer coordinate succeeds and the
  following \<^verbatim>\<open>Get(x, y)\<close> returns \<open>v\<close>.
\<close>

theorem Set_then_Get_returns_value:
  assumes "isInteger x" "isInteger y" "0 \<le> x" "x < Width m" "0 \<le> y" "y < Height m"
  shows "fst (Set m x y v) = Inr () \<and> fst (Get (snd (Set m x y v)) x y) = Inr v \<and>
     fst (Set_checked m x y v) = Inr () \<and>
     fst (Get_checked (snd (Set_checked m x y v)) x y) = Inr v"
  using assms by (simp add: ops Width_def Height_def Array_get_put_same)

theorem Set_then_Get_returns_value_witness:
  "fst (Set (projr (new_FastMap 3 3)) 1 2 (JNumber 42)) = Inr () \<and>
   fst (Get (snd (Set (projr (new_FastMap 3 3)) 1 2 (JNumber 42))) 1 2) = Inr (JNumber 42)"
  using Set_then_Get_returns_value [of 1 2 "projr (new_FastMap 3 3)" "JNumber 42"]
  by (simp add: new_FastMap_def Array_new_def Width_def Height_def)

text \<open>The same law for the class with \<^verbatim>\<open>memoCache\<close>: \<^verbatim>\<open>Set\<close> drops the cached entry.\<close>

lemma memo_roundtrip:
  assumes "isInteger x" "isInteger y" "0 \<le> x" "x < Width c" "0 \<le> y" "y < Height c"
  shows "fst (Set_memo c x y v) = Inr () \<and> fst (Get_memo (snd (Set_memo c x y v)) x y) = Inr v"
  using assms by (simp add: ops Width_def Height_def Array_get_put_same)

text \<open>
  Claim C6, the overwrite and clearing laws. After \<^verbatim>\<open>Set(x, y, v1)\<close> and
  \<^verbatim>\<open>Set(x, y, v2)\<close> at an in-range integer coordinate, \<^verbatim>\<open>Get(x, y)\<close> returns \<open>v2\<close>;
  with the absent marker as \<open>v2\<close> (\<^verbatim>\<open>null\<close> in \<^verbatim>\<open>src/index.ts\<close>, \<^verbatim>\<open>undefined\<close> in the
  class with \<^verbatim>\<open>GetUnsafe\<close>) it returns the absent marker.
\<close>

theorem overwrite_and_clear:
  assumes "isInteger x" "isInteger y" "0 \<le> x" "x < Width m" "0 \<le> y" "y < Height m"
  shows "fst (Get (snd (Set (snd (Set m x y v1)) x y v2)) x y) = Inr v2 \<and>
     fst (Get (snd (Set (snd (Set m x y v1)) x y JNull)) x y) = Inr JNull \<and>
     fst (Get_checked (snd (Set_checked (snd (Set_checked m x y v1)) x y v2)) x y) = Inr v2 \<and>
     fst (Get_checked (snd (Set_checked (snd (Set_checked m x y v1)) x y JUndefined)) x y) =
       Inr JUndefined"
  using assms by (simp add: ops Width_def Height_def Array_get_put_same)

theorem overwrite_and_clear_witness:
  "fst (Get (snd (Set (snd (Set (projr (new_FastMap 3 3)) 1 1 (JNumber 10))) 1 1 (JNumber 20)))
      1 1) = Inr (JNumber 20) \<and>
   fst (Get (snd (Set (snd (Set (projr (new_FastMap 3 3)) 1 1 (JNumber 10))) 1 1 JNull))
      1 1) = Inr JNull"
  using overwrite_and_clear [of 1 1 "projr (new_FastMap 3 3)" "JNumber 10" "JNumber 20"]
  by (simp add: new_FastMap_def Array_new_def Width_def Height_def)

lemma memo_overwrite:
  assumes "isInteger x" "isInteger y" "0 \<le> x" "x < Width c" "0 \<le> y" "y < Height c"
  shows "fst (Get_memo (snd (Set_memo (snd (Set_memo c x y v1)) x y v2)) x y) = Inr v2"
  using assms by (simp add: ops Width_def Height_def Array_get_put_same)

text \<open>
  Claim C4, as it holds on the code. On a map whose width and height are positive integers
  with a product of at most \<open>2^32 - 1\<close>, as every map of the validating versions is, a
  \<^verbatim>\<open>Set\<close> at an in-range integer coordinate does not change what \<^verbatim>\<open>Get\<close> returns at a
  different in-range integer coordinate, and \<^verbatim>\<open>Convert2DTo1D\<close> is a bijection from the
  in-range integer coordinates onto the integers of \<open>[0, width * height)\<close>. All the indices
  are integers below \<open>2^32\<close> there, so the arithmetic is exact.
\<close>

theorem independence_and_bijection:
  assumes "isInteger (Width m)" "isInteger (Height m)" "0 < Width m" "0 < Height m"
    and "Width m * Height m \<le> 2 ^ 32 - 1"
  shows "(isInteger x1 \<and> isInteger y1 \<and> 0 \<le> x1 \<and> x1 < Width m \<and> 0 \<le> y1 \<and> y1 < Height m \<and>
    isInteger x2 \<and> isInteger y2 \<and> 0 \<le> x2 \<and> x2 < Width m \<and> 0 \<le> y2 \<and> y2 < Height m \<and>
    (x1, y1) \<noteq> (x2, y2) \<longrightarrow>
      fst (Get (snd (Set m x1 y1 v)) x2 y2) = fst (Get m x2 y2) \<and>
      fst (Get_checked (snd (Set_checked m x1 y1 v)) x2 y2) = fst (Get_checked m x2 y2)) \<and>
   bij_betw (\<lambda>(x, y). Convert2DTo1D m x y)
     {(x, y). isInteger x \<and> isInteger y \<and> 0 \<le> x \<and> x < Width m \<and> 0 \<le> y \<and> y < Height m}
     {i. isInteger i \<and> 0 \<le> i \<and> i < Width m * Height m}"
proof (intro conjI impI)
  assume h: "isInteger x1 \<and> isInteger y1 \<and> 0 \<le> x1 \<and> x1 < Width m \<and> 0 \<le> y1 \<and> y1 < Height m \<and>
    isInteger x2 \<and> isInteger y2 \<and> 0 \<le> x2 \<and> x2 < Width m \<and> 0 \<le> y2 \<and> y2 < Height m \<and>
    (x1, y1) \<noteq> (x2, y2)"
  then have "y1 * width m + x1 \<noteq> y2 * width m + x2"
    using index_inj [of y1 y2 x1 "width m" x2] by (auto simp: Width_def)
  then show "fst (Get (snd (Set m x1 y1 v)) x2 y2) = fst (Get m x2 y2)"
    and "fst (Get_checked (snd (Set_checked m x1 y1 v)) x2 y2) = fst (Get_checked m x2 y2)"
    using h by (simp_all add: ops Width_def Height_def Array_get_put_other)
next
  show "bij_betw (\<lambda>(x, y). Convert2DTo1D m x y)
     {(x, y). isInteger x \<and> isInteger y \<and> 0 \<le> x \<and> x < Width m \<and> 0 \<le> y \<and> y < Height m}
     {i. isInteger i \<and> 0 \<le> i \<and> i < Width m * Height m}"
    using assms index_bij [of "width m" "height m"]
    by (simp add: Width_def Height_def Convert2DTo1D_def)
qed

theorem independence_and_bijection_witness:
  "fst (Get (snd (Set (projr (new_FastMap 2 2)) 0 1 (JNumber 7))) 1 0) =
     fst (Get (projr (new_FastMap 2 2)) 1 0) \<and>
   bij_betw (\<lambda>(x, y). Convert2DTo1D (projr (new_FastMap 2 2)) x y)
        {(x, y). isInteger x \<and> isInteger y \<and> 0 \<le> x \<and> x < 2 \<and> 0 \<le> y \<and> y < 2}
        {i. isInteger i \<and> 0 \<le> i \<and> i < 2 * 2}"
  using independence_and_bijection [of "projr (new_FastMap 2 2)" 0 1 1 0 "JNumber 7"]
  by (simp add: new_FastMap_def Array_new_def Width_def Height_def)

text \<open>
  Claim C4 as stated, for every grid, fails in \<^verbatim>\<open>src/index.ts\<close>, whose constructor
  accepts a fractional width: \<^verbatim>\<open>new FastMap(2.5, 4)\<close> returns a map over an array of
  length 10, the coordinate \<open>(1, 1)\<close> is in range, and its index \<open>1 * 2.5 + 1 = 3.5\<close> is not
  one of the linear indices \<open>0, \<dots>, 9\<close>.
\<close>

theorem fractional_width_index_not_linear:
  "\<not> isl (new_FastMap (5 / 2) 4) \<and>
   Width (projr (new_FastMap (5 / 2) 4)) = 5 / 2 \<and> Height (projr (new_FastMap (5 / 2) 4)) = 4 \<and>
   arr_length (map_arr (projr (new_FastMap (5 / 2) 4))) = 10 \<and>
   fst (Set (projr (new_FastMap (5 / 2) 4)) 1 1 (JNumber 7)) = Inr () \<and>
   Convert2DTo1D (projr (new_FastMap (5 / 2) 4)) 1 1 = 7 / 2 \<and> \<not> isInteger (7 / 2)"
  by (simp add: ctors ops Width_def Height_def Array_fill_def)

text \<open>So the index mapping of that map is not a bijection onto the linear indices.\<close>

lemma fractional_width_not_bijective:
  "\<not> bij_betw (\<lambda>(x, y). Convert2DTo1D (projr (new_FastMap (5 / 2) 4)) x y)
     {(x, y). isInteger x \<and> isInteger y \<and> 0 \<le> x \<and> x < 5 / 2 \<and> 0 \<le> y \<and> y < 4}
     {i. isInteger i \<and> 0 \<le> i \<and> i < 5 / 2 * 4}"
proof
  assume "bij_betw (\<lambda>(x, y). Convert2DTo1D (projr (new_FastMap (5 / 2) 4)) x y)
     {(x, y). isInteger x \<and> isInteger y \<and> 0 \<le> x \<and> x < 5 / 2 \<and> 0 \<le> y \<and> y < 4}
     {i. isInteger i \<and> 0 \<le> i \<and> i < 5 / 2 * 4}"
  then have img: "(\<lambda>(x, y). Convert2DTo1D (projr (new_FastMap (5 / 2) 4)) x y) `
     {(x, y). isInteger x \<and> isInteger y \<and> 0 \<le> x \<and> x < 5 / 2 \<and> 0 \<le> y \<and> y < 4} =
     {i. isInteger i \<and> 0 \<le> i \<and> i < 5 / 2 * 4}"
    by (rule bij_betw_imp_surj_on)
  have "(1, 1) \<in> {(x, y). isInteger x \<and> isInteger y \<and> 0 \<le> x \<and> x < 5 / 2 \<and> 0 \<le> y \<and> (y::rat) < 4}"
    by simp
  then have "(\<lambda>(x, y). Convert2DTo1D (projr (new_FastMap (5 / 2) 4)) x y) (1, 1) \<in>
     {i. isInteger i \<and> 0 \<le> i \<and> i < 5 / 2 * 4}"
    using img by blast
  then show False
    by (simp add: ctors Convert2DTo1D_def)
qed

lemma memo_independence:
  assumes dims: "isInteger (Width c)" "isInteger (Height c)" "0 < Width c" "0 < Height c"
    "Width c * Height c \<le> 2 ^ 32 - 1"
    and xy: "isInteger x1" "isInteger y1" "0 \<le> x1" "x1 < Width c" "0 \<le> y1" "y1 < Height c"
    "isInteger x2" "isInteger y2" "0 \<le> x2" "x2 < Width c" "0 \<le> y2" "y2 < Height c"
    "(x1, y1) \<noteq> (x2, y2)"
  shows "fst (Get_memo (snd (Set_memo c x1 y1 v)) x2 y2) = fst (Get_memo c x2 y2)"
proof -
  have "y1 * width c + x1 \<noteq> y2 * width c + x2"
    using xy index_inj [of y1 y2 x1 "width c" x2] by (auto simp: Width_def)
  then show ?thesis using xy
    by (auto simp add: ops Width_def Height_def Array_get_put_other Let_def split: option.splits)
qed

text \<open>
  Claim C8. At an in-range integer coordinate \<^verbatim>\<open>Get\<close> returns what \<^verbatim>\<open>GetUnsafe\<close>
  returns, and \<^verbatim>\<open>Set\<close> succeeds and leaves the object that \<^verbatim>\<open>SetUnsafe\<close> leaves.
\<close>

theorem unsafe_agrees_with_checked:
  assumes "isInteger x" "isInteger y" "0 \<le> x" "x < Width m" "0 \<le> y" "y < Height m"
  shows "Get_checked m x y = (Inr (fst (GetUnsafe m x y)), snd (GetUnsafe m x y)) \<and>
     Set_checked m x y v = (Inr (), snd (SetUnsafe m x y v))"
  using assms by (simp add: ops Width_def Height_def)

theorem unsafe_agrees_with_checked_witness:
  "Get_checked (projr (new_FastMap_unsafe 3 3)) 1 2 =
     (Inr (fst (GetUnsafe (projr (new_FastMap_unsafe 3 3)) 1 2)),
      snd (GetUnsafe (projr (new_FastMap_unsafe 3 3)) 1 2)) \<and>
   Set_checked (projr (new_FastMap_unsafe 3 3)) 1 2 (JNumber 42) =
     (Inr (), snd (SetUnsafe (projr (new_FastMap_unsafe 3 3)) 1 2 (JNumber 42)))"
  using unsafe_agrees_with_checked [of 1 2 "projr (new_FastMap_unsafe 3 3)" "JNumber 42"]
  by (simp add: new_FastMap_unsafe_def validateSize_def Array_new_def Width_def Height_def)

section \<open>Bounds checks\<close>

text \<open>
  Claim C2, as it holds on the code. A coordinate with \<open>x < 0\<close>, \<open>x \<ge> width\<close>, \<open>y < 0\<close>
  or \<open>y \<ge> height\<close> makes \<^verbatim>\<open>Get\<close> and \<^verbatim>\<open>Set\<close> throw the error "Index out of bounds"
  and leaves the object as it was, in \<^verbatim>\<open>src/index.ts\<close> and in the validating versions.
  A non-integer coordinate is rejected in the same way by the validating versions only, whose
  \<^verbatim>\<open>checkIndicesAreValid\<close> calls \<^verbatim>\<open>Number.isInteger\<close>.
\<close>

theorem out_of_range_raises:
  "(x < 0 \<or> x \<ge> Width m \<or> y < 0 \<or> y \<ge> Height m \<longrightarrow>
      Get m x y = (Inl (Error ''Index out of bounds''), m) \<and>
      Set m x y v = (Inl (Error ''Index out of bounds''), m)) \<and>
   (x < 0 \<or> x \<ge> Width m \<or> y < 0 \<or> y \<ge> Height m \<or> \<not> isInteger x \<or> \<not> isInteger y \<longrightarrow>
      Get_checked m x y = (Inl (Error ''Index out of bounds''), m) \<and>
      Set_checked m x y v = (Inl (Error ''Index out of bounds''), m))"
  by (auto simp add: ops Width_def Height_def)

theorem out_of_range_raises_witness:
  "Get (projr (new_FastMap 3 3)) 3 0 = (Inl (Error ''Index out of bounds''), projr (new_FastMap 3 3)) \<and>
   Set (projr (new_FastMap 3 3)) 3 0 (JNumber 42) =
     (Inl (Error ''Index out of bounds''), projr (new_FastMap 3 3)) \<and>
   Get_checked (projr (new_FastMap_unsafe 3 3)) (1 / 2) 0 =
     (Inl (Error ''Index out of bounds''), projr (new_FastMap_unsafe 3 3)) \<and>
   Set_checked (projr (new_FastMap_unsafe 3 3)) (1 / 2) 0 (JNumber 42) =
     (Inl (Error ''Index out of bounds''), projr (new_FastMap_unsafe 3 3))"
  using out_of_range_raises [of 3 "projr (new_FastMap 3 3)" 0 "JNumber 42"]
    out_of_range_raises [of "1 / 2" "projr (new_FastMap_unsafe 3 3)" 0 "JNumber 42"]
  by (simp add: ctors Width_def Height_def)

text \<open>
  Claim C2 as stated fails in \<^verbatim>\<open>src/index.ts\<close>, whose \<^verbatim>\<open>CheckIndicesAreValid\<close> compares
  only: on a 3 by 3 map \<^verbatim>\<open>Get(0.5, 0)\<close> returns \<^verbatim>\<open>undefined\<close> and \<^verbatim>\<open>Set(0.5, 0, 7)\<close>
  succeeds and changes the array object.
\<close>

theorem fractional_coordinate_accepted:
  "\<not> isl (new_FastMap 3 3) \<and> \<not> isInteger (1 / 2) \<and>
   fst (Get (projr (new_FastMap 3 3)) (1 / 2) 0) = Inr JUndefined \<and>
   fst (Set (projr (new_FastMap 3 3)) (1 / 2) 0 (JNumber 7)) = Inr () \<and>
   snd (Set (projr (new_FastMap 3 3)) (1 / 2) 0 (JNumber 7)) \<noteq> projr (new_FastMap 3 3)"
proof -
  have m: "new_FastMap 3 3 =
      Inr \<lparr>map_arr = Array_fill \<lparr>arr_length = 9, arr_props = Map.empty\<rparr> JNull,
           width = 3, height = 3\<rparr>"
    by (simp add: ctors)
  have "arr_props (map_arr (snd (Set (projr (new_FastMap 3 3)) (1 / 2) 0 (JNumber 7)))) (1 / 2)
      = Some (JNumber 7)"
    by (simp add: m ops Array_put_def)
  moreover have "arr_props (map_arr (projr (new_FastMap 3 3))) (1 / 2) = None"
    by (simp add: m Array_fill_def)
  ultimately have "snd (Set (projr (new_FastMap 3 3)) (1 / 2) 0 (JNumber 7)) \<noteq>
      projr (new_FastMap 3 3)"
    by auto
  then show ?thesis
    by (simp add: m ops Array_fill_def Array_get_def)
qed

text \<open>
  In the class with \<^verbatim>\<open>memoCache\<close>, \<^verbatim>\<open>Get\<close> answers from the cache before it checks the
  coordinates. The cache only ever holds coordinates that passed the check, so an invalid
  coordinate is rejected there too.
\<close>

lemma memo_rejects_invalid:
  assumes "x < 0 \<or> x \<ge> Width c \<or> y < 0 \<or> y \<ge> Height c \<or> \<not> isInteger x \<or> \<not> isInteger y"
  shows "Set_memo c x y v = (Inl (Error ''Index out of bounds''), c)"
    and "memoCache c (x, y) = None \<Longrightarrow> Get_memo c x y = (Inl (Error ''Index out of bounds''), c)"
  using assms by (auto simp add: ops Width_def Height_def)

lemma memo_cache_keys_valid:
  "new_FastMap_memo w h = Inr c \<Longrightarrow> memoCache c = Map.empty"
  "\<forall>k. memoCache c k \<noteq> None \<longrightarrow> checkIndicesAreValid c (fst k) (snd k) \<Longrightarrow>
     \<forall>k. memoCache (snd (Get_memo c x y)) k \<noteq> None \<longrightarrow>
       checkIndicesAreValid (snd (Get_memo c x y)) (fst k) (snd k)"
  "\<forall>k. memoCache c k \<noteq> None \<longrightarrow> checkIndicesAreValid c (fst k) (snd k) \<Longrightarrow>
     \<forall>k. memoCache (snd (Set_memo c x y v)) k \<noteq> None \<longrightarrow>
       checkIndicesAreValid (snd (Set_memo c x y v)) (fst k) (snd k)"
    apply (auto simp add: ctors split: if_splits)[1]
   apply (auto simp add: Get_memo_def Let_def checkIndicesAreValid_def split: option.splits)[1]
  apply (auto simp add: Set_memo_def checkIndicesAreValid_def)
  done

section \<open>Effects of the operations on the state\<close>

text \<open>
  Claim C7, as it holds on the code. In \<^verbatim>\<open>src/index.ts\<close> and in the class with
  \<^verbatim>\<open>GetUnsafe\<close>, \<^verbatim>\<open>Get\<close> (and \<^verbatim>\<open>GetUnsafe\<close>) leaves the whole object unchanged whether
  it returns or throws, so a later \<^verbatim>\<open>Get\<close> returns what it would have returned. In the
  class with \<^verbatim>\<open>memoCache\<close>, \<^verbatim>\<open>Get\<close> leaves the array, the width and the height
  unchanged, and a \<^verbatim>\<open>Get\<close> that throws leaves the whole object unchanged; a \<^verbatim>\<open>Get\<close>
  that returns may add an entry to the cache.
\<close>

theorem Get_leaves_state:
  "snd (Get m x y) = m \<and> Get (snd (Get m x y)) x' y' = Get m x' y' \<and>
   snd (Get_checked m x y) = m \<and>
   Get_checked (snd (Get_checked m x y)) x' y' = Get_checked m x' y' \<and>
   snd (GetUnsafe m x y) = m \<and>
   snd (Get_memo c x y) = c\<lparr>memoCache := memoCache (snd (Get_memo c x y))\<rparr> \<and>
   (isl (fst (Get_memo c x y)) \<longrightarrow> snd (Get_memo c x y) = c)"
  by (simp add: ops Let_def split: option.splits)

theorem Get_leaves_state_witness:
  "isl (fst (Get_memo (projr (new_FastMap_memo 3 3)) (- 1) 0)) \<and>
   snd (Get_memo (projr (new_FastMap_memo 3 3)) (- 1) 0) = projr (new_FastMap_memo 3 3)"
  using Get_leaves_state [where c = "projr (new_FastMap_memo 3 3)" and x = "- 1" and y = 0]
  by (simp add: ctors ops)

text \<open>
  Claim C7 as stated fails in the class with \<^verbatim>\<open>memoCache\<close>: the first \<^verbatim>\<open>Get(0, 0)\<close>
  on a fresh 1 by 1 map returns \<^verbatim>\<open>null\<close> and stores it in the cache, so the object
  after the call is not the object before it.
\<close>

theorem Get_memo_changes_state:
  "\<not> isl (new_FastMap_memo 1 1) \<and>
   fst (Get_memo (projr (new_FastMap_memo 1 1)) 0 0) = Inr JNull \<and>
   memoCache (projr (new_FastMap_memo 1 1)) (0, 0) = None \<and>
   memoCache (snd (Get_memo (projr (new_FastMap_memo 1 1)) 0 0)) (0, 0) = Some JNull \<and>
   snd (Get_memo (projr (new_FastMap_memo 1 1)) 0 0) \<noteq> projr (new_FastMap_memo 1 1)"
  by (simp add: ops Let_def ctors Array_fill_def Array_get_def)

text \<open>
  The cached branch of that \<^verbatim>\<open>Get\<close> returns \<^verbatim>\<open>this.memoCache.get(key) || null\<close>, which
  turns a stored falsy value into \<^verbatim>\<open>null\<close>: after \<^verbatim>\<open>Set(0, 0, 0)\<close> the first
  \<^verbatim>\<open>Get(0, 0)\<close> returns \<open>0\<close> and the second returns \<^verbatim>\<open>null\<close>.
\<close>

lemma memo_falsy_value_lost:
  "fst (Get_memo (snd (Set_memo (projr (new_FastMap_memo 1 1)) 0 0 (JNumber 0))) 0 0) =
     Inr (JNumber 0) \<and>
   fst (Get_memo (snd (Get_memo (snd (Set_memo (projr (new_FastMap_memo 1 1)) 0 0 (JNumber 0)))
      0 0)) 0 0) = Inr JNull"
  by (simp add: ops Let_def ctors Array_get_put_same js_or_def)




lemma memo_dimensions_kept:
  "Width (snd (Get_memo c x y)) = Width c \<and> Height (snd (Get_memo c x y)) = Height c \<and>
   Width (snd (Set_memo c x y v)) = Width c \<and> Height (snd (Set_memo c x y v)) = Height c \<and>
   arr_length (map_arr (snd (Get_memo c x y))) = arr_length (map_arr c) \<and>
   (isInteger (Height c) \<and> rat_of_nat (arr_length (map_arr c)) = Width c * Height c \<longrightarrow>
      arr_length (map_arr (snd (Set_memo c x y v))) = arr_length (map_arr c))"
  using put_keeps_length [of y c x v]
  by (auto simp add: ops Width_def Height_def Let_def split: option.splits)

end
